theory Spec2Isabelle
  imports Complex_Main
begin

section \<open>Life insurance pricing engine: the risk scoring engine of backend_api.py\<close>

text \<open>
  The development embeds \<^verbatim>\<open>RiskScoringEngine\<close> of \<^verbatim>\<open>backend_api.py\<close>.
  Python floats are modelled as exact real numbers, so every decimal literal of the source
  (\<^verbatim>\<open>0.20\<close>, \<^verbatim>\<open>0.85\<close>, ...) is the rational it denotes, and \<^verbatim>\<open>round(x, n)\<close> is
  rounding to \<open>n\<close> decimals with ties to even. Strings are lists of characters with code
  points below 256. The pandas data frame is a list of rows with no missing cell, except
  that an issue date may fail to parse. The generated texts (\<^verbatim>\<open>explanation\<close>,
  \<^verbatim>\<open>value\<close>, \<^verbatim>\<open>summary\<close>) are not part of the model; every other field of the result is.
\<close>

subsection \<open>Python primitives\<close>

text \<open>\<^verbatim>\<open>round(x, n)\<close>: the nearest multiple of \<open>10^-n\<close>, a tie going to the even one.\<close>

definition round_half_even :: "real \<Rightarrow> int" where
  "round_half_even x =
     (let f = \<lfloor>x\<rfloor>; d = x - of_int f
      in if d < 1/2 then f else if 1/2 < d then f + 1 else if even f then f else f + 1)"

definition py_round :: "real \<Rightarrow> nat \<Rightarrow> real" where
  "py_round x n = of_int (round_half_even (x * 10 ^ n)) / 10 ^ n"

text \<open>\<^verbatim>\<open>Series.mean()\<close> of a non-empty column, and a boolean column read as 0/1.\<close>

definition mean :: "real list \<Rightarrow> real" where
  "mean xs = sum_list xs / of_nat (length xs)"

definition bool_num :: "bool \<Rightarrow> real" where
  "bool_num b = (if b then 1 else 0)"

text \<open>\<^verbatim>\<open>str.strip()\<close>, \<^verbatim>\<open>str.lower()\<close>, \<^verbatim>\<open>str.split(sep)\<close> and \<^verbatim>\<open>str.count(sep)\<close>
  for a one-character separator.\<close>

definition is_space :: "char \<Rightarrow> bool" where
  "is_space c =
     (let n = (of_char c :: nat)
      in (9 \<le> n \<and> n \<le> 13) \<or> (28 \<le> n \<and> n \<le> 32) \<or> n = 133 \<or> n = 160)"

definition py_strip :: "string \<Rightarrow> string" where
  "py_strip s = rev (dropWhile is_space (rev (dropWhile is_space s)))"

definition lower_char :: "char \<Rightarrow> char" where
  "lower_char c =
     (let n = (of_char c :: nat)
      in if (65 \<le> n \<and> n \<le> 90) \<or> (192 \<le> n \<and> n \<le> 222 \<and> n \<noteq> 215)
         then char_of (n + 32) else c)"

definition py_lower :: "string \<Rightarrow> string" where
  "py_lower s = map lower_char s"

fun py_split :: "char \<Rightarrow> string \<Rightarrow> string list" where
  "py_split sep [] = [[]]"
| "py_split sep (c # cs) =
     (if c = sep then [] # py_split sep cs
      else (case py_split sep cs of
              [] \<Rightarrow> [[c]]
            | p # ps \<Rightarrow> (c # p) # ps))"

definition py_count :: "char \<Rightarrow> string \<Rightarrow> nat" where
  "py_count sep s = length (filter (\<lambda>c. c = sep) s)"

text \<open>A failed dictionary lookup \<^verbatim>\<open>risk_map[key]\<close> raises \<^verbatim>\<open>KeyError(key)\<close>: the
  exception carries the key and nothing else.\<close>

datatype error = KeyError string

fun lookup_or_raise :: "(string \<times> real) list \<Rightarrow> string \<Rightarrow> error + real" where
  "lookup_or_raise m k = (case map_of m k of None \<Rightarrow> Inl (KeyError k) | Some v \<Rightarrow> Inr v)"




subsection \<open>Data model\<close>

text \<open>What a text field of the incoming dictionary may hold: \<^verbatim>\<open>None\<close> (also a missing
  key, through \<^verbatim>\<open>dict.get\<close>), the float NaN that pandas gives for an empty cell, or a
  string.\<close>

datatype text_value = PyNone | PyNaN | PyStr string

text \<open>\<^verbatim>\<open>CustomerInput\<close>. The type parameter is the type of the nine text fields:
  \<open>text_value\<close> before normalisation, \<open>string\<close> after it.\<close>

record 't customer =
  customer_id :: string
  age :: real
  gender :: 't
  occupation :: 't
  occupation_class :: 't
  height_inches :: real
  weight_lbs :: real
  bmi :: real
  blood_pressure_systolic :: int
  blood_pressure_diastolic :: int
  total_cholesterol :: int
  hdl_cholesterol :: int
  ldl_cholesterol :: int
  smoking_status :: 't
  alcohol_consumption :: 't
  exercise_frequency :: 't
  chronic_conditions :: 't
  family_history :: 't
  dangerous_hobbies :: 't
  annual_income :: int
  coverage_amount_requested :: int
  credit_score :: int
  existing_coverage :: int

text \<open>A row of the historical data frame: the columns the engine reads. The issue date is
  the result of \<^verbatim>\<open>pd.to_datetime(..., errors='coerce')\<close>, in days since the epoch, and
  \<open>None\<close> for \<^verbatim>\<open>NaT\<close>.\<close>

record hist_row =
  h_age :: real
  h_gender :: string
  h_occupation_class :: string
  h_bmi :: real
  h_blood_pressure_systolic :: int
  h_total_cholesterol :: int
  h_smoking_status :: string
  h_alcohol_consumption :: string
  h_exercise_frequency :: string
  h_chronic_conditions :: string
  h_family_history :: string
  h_dangerous_hobbies :: string
  h_risk_score_assigned :: real
  h_annual_premium_assigned :: real
  h_claim_filed :: bool
  h_policy_accepted :: bool
  h_policy_active :: bool
  h_policy_issue_date :: "real option"

type_synonym dataframe = "hist_row list"

text \<open>\<^verbatim>\<open>ScoringStep\<close>, without the two generated texts.\<close>

record scoring_step =
  category :: string
  factor :: string
  risk_contribution :: real
  weight :: real
  weighted_score :: real
  supporting_data :: "(string \<times> real) list"

text \<open>The dictionary returned by \<^verbatim>\<open>_calculate_pricing\<close>.\<close>

record pricing =
  low :: real
  calculated :: real
  recommended :: real
  high :: real

text \<open>The dictionary returned by \<^verbatim>\<open>_estimate_policy_metrics\<close>.\<close>

record policy_metrics =
  predicted_duration_years :: real
  attrition_likelihood :: real

text \<open>\<^verbatim>\<open>PricingResult\<close>, without \<^verbatim>\<open>summary\<close> and the optional AI analysis.\<close>

record pricing_result =
  result_customer_id :: string
  final_risk_score :: real
  annual_premium_low :: real
  annual_premium_calculated :: real
  annual_premium_recommended :: real
  annual_premium_high :: real
  predicted_policy_duration_years :: real
  result_attrition_likelihood :: real
  scoring_steps :: "scoring_step list"
  confidence_level :: string

subsection \<open>Normalisation of the text fields\<close>

fun normalize_string_field :: "text_value \<Rightarrow> string" where
  "normalize_string_field PyNone = ''None''"
| "normalize_string_field PyNaN = ''None''"
| "normalize_string_field (PyStr v) =
     (let val = py_strip v
      in if py_lower val = ''nan'' \<or> py_lower val = '''' then ''None'' else val)"

definition normalize_customer_inputs :: "text_value customer \<Rightarrow> string customer" where
  "normalize_customer_inputs c =
     \<lparr> customer_id = customer_id c,
       age = age c,
       gender = normalize_string_field (gender c),
       occupation = normalize_string_field (occupation c),
       occupation_class = normalize_string_field (occupation_class c),
       height_inches = height_inches c,
       weight_lbs = weight_lbs c,
       bmi = bmi c,
       blood_pressure_systolic = blood_pressure_systolic c,
       blood_pressure_diastolic = blood_pressure_diastolic c,
       total_cholesterol = total_cholesterol c,
       hdl_cholesterol = hdl_cholesterol c,
       ldl_cholesterol = ldl_cholesterol c,
       smoking_status = normalize_string_field (smoking_status c),
       alcohol_consumption = normalize_string_field (alcohol_consumption c),
       exercise_frequency = normalize_string_field (exercise_frequency c),
       chronic_conditions = normalize_string_field (chronic_conditions c),
       family_history = normalize_string_field (family_history c),
       dangerous_hobbies = normalize_string_field (dangerous_hobbies c),
       annual_income = annual_income c,
       coverage_amount_requested = coverage_amount_requested c,
       credit_score = credit_score c,
       existing_coverage = existing_coverage c \<rparr>"

subsection \<open>The twelve factor scores\<close>

text \<open>Each function takes the engine's \<^verbatim>\<open>historical_data\<close> (\<open>None\<close> when the engine
  was built without a file) and the normalised customer. The cohort summary is the
  dictionary \<^verbatim>\<open>comparison_data\<close>, in insertion order.\<close>

definition score_age :: "dataframe option \<Rightarrow> string customer \<Rightarrow> scoring_step" where
  "score_age historical_data customer =
     (let a = age customer;
          w = 0.20;
          risk = (if a < 30 then 0.1 else if a < 40 then 0.15 else if a < 50 then 0.25
                  else if a < 60 then 0.4 else if a < 70 then 0.6 else 0.8);
          weighted = risk * w;
          comparison_data =
            (case historical_data of
               None \<Rightarrow> []
             | Some df \<Rightarrow>
                 (let age_cohort = filter (\<lambda>r. a - 5 \<le> h_age r \<and> h_age r \<le> a + 5) df
                  in if 0 < length age_cohort
                     then [(''cohort_size'', of_nat (length age_cohort)),
                           (''avg_risk_score'',
                              py_round (mean (map h_risk_score_assigned age_cohort)) 2),
                           (''claim_rate'',
                              py_round (mean (map (\<lambda>r. bool_num (h_claim_filed r)) age_cohort) * 100) 2)]
                     else []))
      in \<lparr> category = ''Demographics'', factor = ''Age'', risk_contribution = risk,
           weight = w, weighted_score = py_round weighted 4,
           supporting_data = comparison_data \<rparr>)"

definition score_gender :: "dataframe option \<Rightarrow> string customer \<Rightarrow> scoring_step" where
  "score_gender historical_data customer =
     (let g = gender customer;
          w = 0.05;
          risk = (if g = ''Male'' then 0.55 else 0.45);
          weighted = risk * w;
          comparison_data =
            (case historical_data of
               None \<Rightarrow> []
             | Some df \<Rightarrow>
                 (let gender_data = filter (\<lambda>r. h_gender r = g) df
                  in if 0 < length gender_data
                     then [(''cohort_size'', of_nat (length gender_data)),
                           (''avg_risk_score'',
                              py_round (mean (map h_risk_score_assigned gender_data)) 2),
                           (''avg_premium'',
                              py_round (mean (map h_annual_premium_assigned gender_data)) 2)]
                     else []))
      in \<lparr> category = ''Demographics'', factor = ''Gender'', risk_contribution = risk,
           weight = w, weighted_score = py_round weighted 4,
           supporting_data = comparison_data \<rparr>)"

definition occupation_risk_map :: "(string \<times> real) list" where
  "occupation_risk_map =
     [(''Class I (Low Risk)'', 0.2),
      (''Class II (Moderate Risk)'', 0.4),
      (''Class III (High Risk)'', 0.7),
      (''Class IV (Very High Risk)'', 0.9)]"

definition score_occupation :: "dataframe option \<Rightarrow> string customer \<Rightarrow> error + scoring_step" where
  "score_occupation historical_data customer =
     (let oc = occupation_class customer;
          w = 0.10
      in case lookup_or_raise occupation_risk_map oc of
           Inl e \<Rightarrow> Inl e
         | Inr risk \<Rightarrow>
             (let weighted = risk * w;
                  comparison_data =
                    (case historical_data of
                       None \<Rightarrow> []
                     | Some df \<Rightarrow>
                         (let occ_data = filter (\<lambda>r. h_occupation_class r = oc) df
                          in if 0 < length occ_data
                             then [(''cohort_size'', of_nat (length occ_data)),
                                   (''avg_risk_score'',
                                      py_round (mean (map h_risk_score_assigned occ_data)) 2),
                                   (''claim_rate'',
                                      py_round (mean (map (\<lambda>r. bool_num (h_claim_filed r)) occ_data) * 100) 2)]
                             else []))
              in Inr \<lparr> category = ''Demographics'', factor = ''Occupation'',
                       risk_contribution = risk, weight = w,
                       weighted_score = py_round weighted 4,
                       supporting_data = comparison_data \<rparr>))"

definition score_bmi :: "dataframe option \<Rightarrow> string customer \<Rightarrow> scoring_step" where
  "score_bmi historical_data customer =
     (let b = bmi customer;
          w = 0.15;
          risk = (if b < 18.5 then 0.4 else if b < 25 then 0.2 else if b < 30 then 0.4
                  else if b < 35 then 0.6 else if b < 40 then 0.8 else 0.95);
          weighted = risk * w;
          comparison_data =
            (case historical_data of
               None \<Rightarrow> []
             | Some df \<Rightarrow>
                 (let bmi_cohort = filter (\<lambda>r. b - 2 \<le> h_bmi r \<and> h_bmi r \<le> b + 2) df
                  in if 0 < length bmi_cohort
                     then [(''cohort_size'', of_nat (length bmi_cohort)),
                           (''avg_risk_score'',
                              py_round (mean (map h_risk_score_assigned bmi_cohort)) 2),
                           (''chronic_condition_rate'',
                              py_round (mean (map (\<lambda>r. bool_num (h_chronic_conditions r \<noteq> ''None''))
                                                bmi_cohort) * 100) 2)]
                     else []))
      in \<lparr> category = ''Health Metrics'', factor = ''Body Mass Index (BMI)'',
           risk_contribution = risk, weight = w, weighted_score = py_round weighted 4,
           supporting_data = comparison_data \<rparr>)"

definition score_blood_pressure :: "dataframe option \<Rightarrow> string customer \<Rightarrow> scoring_step" where
  "score_blood_pressure historical_data customer =
     (let systolic = blood_pressure_systolic customer;
          w = 0.10;
          risk = (if systolic < 120 then 0.1 else if systolic < 130 then 0.3
                  else if systolic < 140 then 0.5 else if systolic < 160 then 0.7 else 0.9);
          weighted = risk * w;
          comparison_data =
            (case historical_data of
               None \<Rightarrow> []
             | Some df \<Rightarrow>
                 (let bp_cohort = filter (\<lambda>r. systolic - 10 \<le> h_blood_pressure_systolic r
                                              \<and> h_blood_pressure_systolic r \<le> systolic + 10) df
                  in if 0 < length bp_cohort
                     then [(''cohort_size'', of_nat (length bp_cohort)),
                           (''avg_risk_score'',
                              py_round (mean (map h_risk_score_assigned bp_cohort)) 2)]
                     else []))
      in \<lparr> category = ''Health Metrics'', factor = ''Blood Pressure'',
           risk_contribution = risk, weight = w, weighted_score = py_round weighted 4,
           supporting_data = comparison_data \<rparr>)"

definition score_cholesterol :: "dataframe option \<Rightarrow> string customer \<Rightarrow> scoring_step" where
  "score_cholesterol historical_data customer =
     (let total_chol = total_cholesterol customer;
          w = 0.08;
          risk = (if total_chol < 200 then 0.2 else if total_chol < 240 then 0.5 else 0.8);
          weighted = risk * w;
          comparison_data =
            (case historical_data of
               None \<Rightarrow> []
             | Some df \<Rightarrow>
                 (let chol_cohort = filter (\<lambda>r. total_chol - 20 \<le> h_total_cholesterol r
                                                \<and> h_total_cholesterol r \<le> total_chol + 20) df
                  in if 0 < length chol_cohort
                     then [(''cohort_size'', of_nat (length chol_cohort)),
                           (''avg_risk_score'',
                              py_round (mean (map h_risk_score_assigned chol_cohort)) 2)]
                     else []))
      in \<lparr> category = ''Health Metrics'', factor = ''Cholesterol'',
           risk_contribution = risk, weight = w, weighted_score = py_round weighted 4,
           supporting_data = comparison_data \<rparr>)"

definition smoking_risk_map :: "(string \<times> real) list" where
  "smoking_risk_map =
     [(''Never'', 0.1),
      (''Former (>5 years)'', 0.3),
      (''Former (<5 years)'', 0.5),
      (''Current'', 0.95)]"

definition score_smoking :: "dataframe option \<Rightarrow> string customer \<Rightarrow> error + scoring_step" where
  "score_smoking historical_data customer =
     (let st = smoking_status customer;
          w = 0.15
      in case lookup_or_raise smoking_risk_map st of
           Inl e \<Rightarrow> Inl e
         | Inr risk \<Rightarrow>
             (let weighted = risk * w;
                  comparison_data =
                    (case historical_data of
                       None \<Rightarrow> []
                     | Some df \<Rightarrow>
                         (let smoking_cohort = filter (\<lambda>r. h_smoking_status r = st) df
                          in if 0 < length smoking_cohort
                             then [(''cohort_size'', of_nat (length smoking_cohort)),
                                   (''avg_risk_score'',
                                      py_round (mean (map h_risk_score_assigned smoking_cohort)) 2),
                                   (''avg_premium'',
                                      py_round (mean (map h_annual_premium_assigned smoking_cohort)) 2)]
                             else []))
              in Inr \<lparr> category = ''Lifestyle'', factor = ''Smoking Status'',
                       risk_contribution = risk, weight = w,
                       weighted_score = py_round weighted 4,
                       supporting_data = comparison_data \<rparr>))"

definition alcohol_risk_map :: "(string \<times> real) list" where
  "alcohol_risk_map =
     [(''None'', 0.2),
      (''Light (1-2/week)'', 0.25),
      (''Moderate (3-7/week)'', 0.4),
      (''Heavy (>7/week)'', 0.8)]"

definition score_alcohol :: "dataframe option \<Rightarrow> string customer \<Rightarrow> error + scoring_step" where
  "score_alcohol historical_data customer =
     (let alcohol = alcohol_consumption customer;
          w = 0.05
      in case lookup_or_raise alcohol_risk_map alcohol of
           Inl e \<Rightarrow> Inl e
         | Inr risk \<Rightarrow>
             (let weighted = risk * w;
                  comparison_data =
                    (case historical_data of
                       None \<Rightarrow> []
                     | Some df \<Rightarrow>
                         (let alcohol_cohort = filter (\<lambda>r. h_alcohol_consumption r = alcohol) df
                          in if 0 < length alcohol_cohort
                             then [(''cohort_size'', of_nat (length alcohol_cohort)),
                                   (''avg_risk_score'',
                                      py_round (mean (map h_risk_score_assigned alcohol_cohort)) 2)]
                             else []))
              in Inr \<lparr> category = ''Lifestyle'', factor = ''Alcohol Consumption'',
                       risk_contribution = risk, weight = w,
                       weighted_score = py_round weighted 4,
                       supporting_data = comparison_data \<rparr>))"

definition exercise_risk_map :: "(string \<times> real) list" where
  "exercise_risk_map =
     [(''Sedentary'', 0.7),
      (''Light (1-2/week)'', 0.5),
      (''Moderate (3-4/week)'', 0.3),
      (''Active (5+/week)'', 0.15)]"

definition score_exercise :: "dataframe option \<Rightarrow> string customer \<Rightarrow> error + scoring_step" where
  "score_exercise historical_data customer =
     (let exercise = exercise_frequency customer;
          w = 0.04
      in case lookup_or_raise exercise_risk_map exercise of
           Inl e \<Rightarrow> Inl e
         | Inr risk \<Rightarrow>
             (let weighted = risk * w;
                  comparison_data =
                    (case historical_data of
                       None \<Rightarrow> []
                     | Some df \<Rightarrow>
                         (let exercise_cohort = filter (\<lambda>r. h_exercise_frequency r = exercise) df
                          in if 0 < length exercise_cohort
                             then [(''cohort_size'', of_nat (length exercise_cohort)),
                                   (''avg_risk_score'',
                                      py_round (mean (map h_risk_score_assigned exercise_cohort)) 2),
                                   (''avg_bmi'', py_round (mean (map h_bmi exercise_cohort)) 1)]
                             else []))
              in Inr \<lparr> category = ''Lifestyle'', factor = ''Exercise Frequency'',
                       risk_contribution = risk, weight = w,
                       weighted_score = py_round weighted 4,
                       supporting_data = comparison_data \<rparr>))"

definition score_chronic_conditions :: "dataframe option \<Rightarrow> string customer \<Rightarrow> scoring_step" where
  "score_chronic_conditions historical_data customer =
     (let conditions = chronic_conditions customer;
          w = 0.10;
          num_conditions = (if conditions = ''None'' then 0
                            else length (py_split (CHR '';'') conditions));
          risk = (if conditions = ''None'' then 0.1
                  else min 0.95 (0.4 + of_nat num_conditions * 0.2));
          weighted = risk * w;
          comparison_data =
            (case historical_data of
               None \<Rightarrow> []
             | Some df \<Rightarrow>
                 (let condition_cohort =
                        (if conditions = ''None''
                         then filter (\<lambda>r. h_chronic_conditions r = ''None'') df
                         else filter (\<lambda>r. py_count (CHR '';'') (h_chronic_conditions r)
                                            = py_count (CHR '';'') conditions) df)
                  in if 0 < length condition_cohort
                     then [(''cohort_size'', of_nat (length condition_cohort)),
                           (''avg_risk_score'',
                              py_round (mean (map h_risk_score_assigned condition_cohort)) 2),
                           (''claim_rate'',
                              py_round (mean (map (\<lambda>r. bool_num (h_claim_filed r)) condition_cohort) * 100) 2)]
                     else []))
      in \<lparr> category = ''Medical History'', factor = ''Chronic Conditions'',
           risk_contribution = risk, weight = w, weighted_score = py_round weighted 4,
           supporting_data = comparison_data \<rparr>)"

definition score_family_history :: "dataframe option \<Rightarrow> string customer \<Rightarrow> scoring_step" where
  "score_family_history historical_data customer =
     (let fh = family_history customer;
          w = 0.05;
          num_history = (if fh = ''None'' then 0 else length (py_split (CHR '';'') fh));
          risk = (if fh = ''None'' then 0.2 else min 0.8 (0.4 + of_nat num_history * 0.2));
          weighted = risk * w;
          comparison_data =
            (case historical_data of
               None \<Rightarrow> []
             | Some df \<Rightarrow>
                 (let history_cohort =
                        (if fh = ''None''
                         then filter (\<lambda>r. h_family_history r = ''None'') df
                         else filter (\<lambda>r. py_count (CHR '';'') (h_family_history r)
                                            = py_count (CHR '';'') fh) df)
                  in if 0 < length history_cohort
                     then [(''cohort_size'', of_nat (length history_cohort)),
                           (''avg_risk_score'',
                              py_round (mean (map h_risk_score_assigned history_cohort)) 2)]
                     else []))
      in \<lparr> category = ''Medical History'', factor = ''Family History'',
           risk_contribution = risk, weight = w, weighted_score = py_round weighted 4,
           supporting_data = comparison_data \<rparr>)"

definition score_hobbies :: "dataframe option \<Rightarrow> string customer \<Rightarrow> scoring_step" where
  "score_hobbies historical_data customer =
     (let hobby = dangerous_hobbies customer;
          w = 0.03;
          risk = (if hobby = ''None'' then 0.1 else 0.9);
          weighted = risk * w;
          comparison_data =
            (case historical_data of
               None \<Rightarrow> []
             | Some df \<Rightarrow>
                 (let hobby_cohort =
                        (if hobby = ''None''
                         then filter (\<lambda>r. h_dangerous_hobbies r = ''None'') df
                         else filter (\<lambda>r. h_dangerous_hobbies r \<noteq> ''None'') df)
                  in if 0 < length hobby_cohort
                     then [(''cohort_size'', of_nat (length hobby_cohort)),
                           (''avg_risk_score'',
                              py_round (mean (map h_risk_score_assigned hobby_cohort)) 2)]
                     else []))
      in \<lparr> category = ''Lifestyle'', factor = ''Dangerous Hobbies'',
           risk_contribution = risk, weight = w, weighted_score = py_round weighted 4,
           supporting_data = comparison_data \<rparr>)"

subsection \<open>Pricing\<close>

definition calculate_pricing :: "string customer \<Rightarrow> real \<Rightarrow> pricing" where
  "calculate_pricing customer risk_score =
     (let a = age customer;
          base_rate = (if a < 30 then 0.60 else if a < 40 then 0.80 else if a < 50 then 1.50
                       else if a < 60 then 3.00 else 6.00);
          risk_multiplier = 0.5 + risk_score * 3;
          coverage_thousands = of_int (coverage_amount_requested customer) / 1000;
          base_annual_premium = base_rate * coverage_thousands * risk_multiplier;
          low_boundary = base_annual_premium * 0.85;
          high_boundary = base_annual_premium * 1.25;
          recommended_price =
            (if risk_score < 0.3 then low_boundary + (high_boundary - low_boundary) * 0.4
             else if risk_score < 0.6 then low_boundary + (high_boundary - low_boundary) * 0.6
             else low_boundary + (high_boundary - low_boundary) * 0.75)
      in \<lparr> low = low_boundary, calculated = recommended_price,
           recommended = recommended_price, high = high_boundary \<rparr>)"

subsection \<open>Policy duration and attrition\<close>

text \<open>The nested function \<^verbatim>\<open>fallback\<close> of \<^verbatim>\<open>_estimate_policy_metrics\<close>.\<close>

definition fallback :: "real \<Rightarrow> policy_metrics" where
  "fallback risk_score =
     \<lparr> predicted_duration_years = max 3 (min 20 (12 - risk_score * 6)),
       attrition_likelihood = max 0.05 (min 0.6 (0.12 + risk_score * 0.25)) \<rparr>"

text \<open>The three cohort filters of \<^verbatim>\<open>_estimate_policy_metrics\<close>, and the choice between
  them (the two \<^verbatim>\<open>if len(cohort) < ...\<close> statements, one after the other).\<close>

definition primary_cohort :: "dataframe \<Rightarrow> string customer \<Rightarrow> dataframe" where
  "primary_cohort df customer =
     filter (\<lambda>r. h_smoking_status r = smoking_status customer)
       (filter (\<lambda>r. h_occupation_class r = occupation_class customer)
          (filter (\<lambda>r. age customer - 5 \<le> h_age r \<and> h_age r \<le> age customer + 5) df))"

definition relaxed_cohort :: "dataframe \<Rightarrow> string customer \<Rightarrow> dataframe" where
  "relaxed_cohort df customer =
     filter (\<lambda>r. h_smoking_status r = smoking_status customer)
       (filter (\<lambda>r. age customer - 10 \<le> h_age r \<and> h_age r \<le> age customer + 10) df)"

definition age_only_cohort :: "dataframe \<Rightarrow> string customer \<Rightarrow> dataframe" where
  "age_only_cohort df customer =
     filter (\<lambda>r. age customer - 10 \<le> h_age r \<and> h_age r \<le> age customer + 10) df"

definition select_cohort :: "dataframe \<Rightarrow> string customer \<Rightarrow> dataframe" where
  "select_cohort df customer =
     (let cohort = primary_cohort df customer;
          cohort = (if length cohort < 50 then relaxed_cohort df customer else cohort);
          cohort = (if length cohort < 30 then age_only_cohort df customer else cohort)
      in cohort)"

text \<open>The rest of \<^verbatim>\<open>_estimate_policy_metrics\<close>, from the chosen cohort. \<open>today\<close> is
  \<^verbatim>\<open>pd.Timestamp.today()\<close> in days since the epoch; \<^verbatim>\<open>.dt.days\<close> is the floor of the
  difference, and \<^verbatim>\<open>dropna\<close> removes the dates that did not parse.\<close>

definition cohort_metrics :: "real \<Rightarrow> dataframe \<Rightarrow> real \<Rightarrow> policy_metrics" where
  "cohort_metrics today cohort risk_score =
     (let accepted = filter h_policy_accepted cohort
      in if accepted = [] then fallback risk_score
         else
           (let active_rate = mean (map (\<lambda>r. bool_num (h_policy_active r)) accepted);
                attrition = 1 - active_rate;
                tenure_years =
                  List.map_filter
                    (\<lambda>r. map_option (\<lambda>d. of_int \<lfloor>today - d\<rfloor> / 365.25) (h_policy_issue_date r))
                    accepted
            in if tenure_years = [] then fallback risk_score
               else
                 (let active_tenure =
                        (if length tenure_years = length accepted
                         then map fst (filter (\<lambda>(t, r). h_policy_active r) (zip tenure_years accepted))
                         else tenure_years);
                      avg_tenure = (if active_tenure \<noteq> [] then mean active_tenure
                                    else mean tenure_years)
                  in \<lparr> predicted_duration_years = max 1 (min 30 avg_tenure),
                       attrition_likelihood = max 0 (min 1 attrition) \<rparr>)))"

definition estimate_policy_metrics ::
    "dataframe option \<Rightarrow> real \<Rightarrow> string customer \<Rightarrow> real \<Rightarrow> policy_metrics" where
  "estimate_policy_metrics historical_data today customer risk_score =
     (case historical_data of
        None \<Rightarrow> fallback risk_score
      | Some df \<Rightarrow>
          if df = [] then fallback risk_score
          else cohort_metrics today (select_cohort df customer) risk_score)"

subsection \<open>Confidence\<close>

definition calculate_confidence :: "string customer \<Rightarrow> scoring_step list \<Rightarrow> string" where
  "calculate_confidence customer steps =
     (let confidence_score = 1;
          a = age customer;
          confidence_score = (if a < 25 \<or> 70 < a then confidence_score * 0.9
                              else confidence_score);
          total_risk = sum_list (map weighted_score steps);
          confidence_score = (if 0.7 < total_risk then confidence_score * 0.85
                              else confidence_score);
          confidence_score = (if dangerous_hobbies customer \<noteq> ''None''
                              then confidence_score * 0.9 else confidence_score);
          confidence_score =
            (if chronic_conditions customer \<noteq> ''None''
                \<and> 2 \<le> length (py_split (CHR '';'') (chronic_conditions customer))
             then confidence_score * 0.92 else confidence_score)
      in if (0.95::real) \<le> confidence_score then ''Very High''
         else if 0.85 \<le> confidence_score then ''High''
         else if 0.75 \<le> confidence_score then ''Moderate''
         else ''Low'')"

subsection \<open>Scoring a customer\<close>

text \<open>\<^verbatim>\<open>score_customer\<close>. The engine's state is \<open>historical_data\<close>; the clock read by
  the duration estimate is the parameter \<open>today\<close>. A \<^verbatim>\<open>KeyError\<close> raised by one of the
  four dictionary lookups ends the call, in the order of the source.\<close>

definition score_customer ::
    "dataframe option \<Rightarrow> real \<Rightarrow> text_value customer \<Rightarrow> error + pricing_result" where
  "score_customer historical_data today raw =
     (let customer = normalize_customer_inputs raw;
          age_step = score_age historical_data customer;
          gender_step = score_gender historical_data customer
      in case score_occupation historical_data customer of
           Inl e \<Rightarrow> Inl e
         | Inr occupation_step \<Rightarrow>
      (let bmi_step = score_bmi historical_data customer;
           bp_step = score_blood_pressure historical_data customer;
           chol_step = score_cholesterol historical_data customer
       in case score_smoking historical_data customer of
            Inl e \<Rightarrow> Inl e
          | Inr smoking_step \<Rightarrow>
       (case score_alcohol historical_data customer of
            Inl e \<Rightarrow> Inl e
          | Inr alcohol_step \<Rightarrow>
       (case score_exercise historical_data customer of
            Inl e \<Rightarrow> Inl e
          | Inr exercise_step \<Rightarrow>
       (let chronic_step = score_chronic_conditions historical_data customer;
            family_step = score_family_history historical_data customer;
            hobby_step = score_hobbies historical_data customer;
            steps = [age_step, gender_step, occupation_step, bmi_step, bp_step, chol_step,
                     smoking_step, alcohol_step, exercise_step, chronic_step, family_step,
                     hobby_step];
            total_risk_score =
              0 + weighted_score age_step + weighted_score gender_step
                + weighted_score occupation_step + weighted_score bmi_step
                + weighted_score bp_step + weighted_score chol_step
                + weighted_score smoking_step + weighted_score alcohol_step
                + weighted_score exercise_step + weighted_score chronic_step
                + weighted_score family_step + weighted_score hobby_step;
            p = calculate_pricing customer total_risk_score;
            confidence = calculate_confidence customer steps;
            policy = estimate_policy_metrics historical_data today customer total_risk_score
        in Inr \<lparr> result_customer_id = customer_id customer,
                 final_risk_score = py_round total_risk_score 4,
                 annual_premium_low = py_round (low p) 2,
                 annual_premium_calculated = py_round (calculated p) 2,
                 annual_premium_recommended = py_round (recommended p) 2,
                 annual_premium_high = py_round (high p) 2,
                 predicted_policy_duration_years = py_round (predicted_duration_years policy) 1,
                 result_attrition_likelihood = py_round (attrition_likelihood policy) 3,
                 scoring_steps = steps,
                 confidence_level = confidence \<rparr>)))))"

subsection \<open>Views of a result\<close>

text \<open>A scoring step without its cohort summary, and a result without everything that is
  computed from the historical data: the cohort summaries and the duration and attrition
  estimate.\<close>

definition without_cohort_summary :: "scoring_step \<Rightarrow> scoring_step" where
  "without_cohort_summary s = s\<lparr>supporting_data := []\<rparr>"

definition history_free_view :: "pricing_result \<Rightarrow> pricing_result" where
  "history_free_view r =
     r\<lparr> predicted_policy_duration_years := 0,
        result_attrition_likelihood := 0,
        scoring_steps := map without_cohort_summary (scoring_steps r) \<rparr>"

text \<open>A result without the one field that is computed from the clock.\<close>

definition date_free_view :: "pricing_result \<Rightarrow> pricing_result" where
  "date_free_view r = r\<lparr> predicted_policy_duration_years := 0 \<rparr>"

subsection \<open>Sample inputs\<close>

text \<open>A healthy 25-year-old applicant; three text fields arrive as a missing value, a NaN
  and a padded \<^verbatim>\<open>nan\<close>.\<close>

definition standard_applicant :: "text_value customer" where
  "standard_applicant =
     \<lparr> customer_id = ''NEW-0001'', age = 25, gender = PyStr ''Female'',
       occupation = PyStr ''Teacher'', occupation_class = PyStr ''Class I (Low Risk)'',
       height_inches = 66, weight_lbs = 136, bmi = 22,
       blood_pressure_systolic = 115, blood_pressure_diastolic = 75,
       total_cholesterol = 180, hdl_cholesterol = 60, ldl_cholesterol = 100,
       smoking_status = PyStr ''Never'', alcohol_consumption = PyNaN,
       exercise_frequency = PyStr ''Active (5+/week)'',
       chronic_conditions = PyStr ''None'', family_history = PyNone,
       dangerous_hobbies = PyStr '' nan '',
       annual_income = 60000, coverage_amount_requested = 500000,
       credit_score = 700, existing_coverage = 0 \<rparr>"

text \<open>The same applicant after normalisation.\<close>

definition standard_customer :: "string customer" where
  "standard_customer =
     \<lparr> customer_id = ''NEW-0001'', age = 25, gender = ''Female'',
       occupation = ''Teacher'', occupation_class = ''Class I (Low Risk)'',
       height_inches = 66, weight_lbs = 136, bmi = 22,
       blood_pressure_systolic = 115, blood_pressure_diastolic = 75,
       total_cholesterol = 180, hdl_cholesterol = 60, ldl_cholesterol = 100,
       smoking_status = ''Never'', alcohol_consumption = ''None'',
       exercise_frequency = ''Active (5+/week)'',
       chronic_conditions = ''None'', family_history = ''None'',
       dangerous_hobbies = ''None'',
       annual_income = 60000, coverage_amount_requested = 500000,
       credit_score = 700, existing_coverage = 0 \<rparr>"

text \<open>What the engine without historical data returns for this applicant.\<close>

definition standard_result :: pricing_result where
  "standard_result =
     \<lparr> result_customer_id = ''NEW-0001'', final_risk_score = 0.1725,
       annual_premium_low = 259.46, annual_premium_calculated = 308.3,
       annual_premium_recommended = 308.3, annual_premium_high = 381.56,
       predicted_policy_duration_years = 11, result_attrition_likelihood = 0.163,
       scoring_steps =
         [\<lparr>category = ''Demographics'', factor = ''Age'', risk_contribution = 0.1,
            weight = 0.20, weighted_score = 0.02, supporting_data = []\<rparr>,
          \<lparr>category = ''Demographics'', factor = ''Gender'', risk_contribution = 0.45,
            weight = 0.05, weighted_score = 0.0225, supporting_data = []\<rparr>,
          \<lparr>category = ''Demographics'', factor = ''Occupation'', risk_contribution = 0.2,
            weight = 0.10, weighted_score = 0.02, supporting_data = []\<rparr>,
          \<lparr>category = ''Health Metrics'', factor = ''Body Mass Index (BMI)'',
            risk_contribution = 0.2, weight = 0.15, weighted_score = 0.03,
            supporting_data = []\<rparr>,
          \<lparr>category = ''Health Metrics'', factor = ''Blood Pressure'',
            risk_contribution = 0.1, weight = 0.10, weighted_score = 0.01,
            supporting_data = []\<rparr>,
          \<lparr>category = ''Health Metrics'', factor = ''Cholesterol'', risk_contribution = 0.2,
            weight = 0.08, weighted_score = 0.016, supporting_data = []\<rparr>,
          \<lparr>category = ''Lifestyle'', factor = ''Smoking Status'', risk_contribution = 0.1,
            weight = 0.15, weighted_score = 0.015, supporting_data = []\<rparr>,
          \<lparr>category = ''Lifestyle'', factor = ''Alcohol Consumption'',
            risk_contribution = 0.2, weight = 0.05, weighted_score = 0.01,
            supporting_data = []\<rparr>,
          \<lparr>category = ''Lifestyle'', factor = ''Exercise Frequency'',
            risk_contribution = 0.15, weight = 0.04, weighted_score = 0.006,
            supporting_data = []\<rparr>,
          \<lparr>category = ''Medical History'', factor = ''Chronic Conditions'',
            risk_contribution = 0.1, weight = 0.10, weighted_score = 0.01,
            supporting_data = []\<rparr>,
          \<lparr>category = ''Medical History'', factor = ''Family History'',
            risk_contribution = 0.2, weight = 0.05, weighted_score = 0.01,
            supporting_data = []\<rparr>,
          \<lparr>category = ''Lifestyle'', factor = ''Dangerous Hobbies'', risk_contribution = 0.1,
            weight = 0.03, weighted_score = 0.003, supporting_data = []\<rparr>],
       confidence_level = ''Very High'' \<rparr>"


definition two_conditions_customer :: "string customer" where
  "two_conditions_customer =
     standard_customer\<lparr> chronic_conditions := ''Diabetes;Hypertension'' \<rparr>"



text \<open>A past customer of the same class and smoking status, eight years older, whose
  policy was issued on day 0 and is still active.\<close>

definition past_customer :: hist_row where
  "past_customer =
     \<lparr> h_age = 33, h_gender = ''Male'', h_occupation_class = ''Class I (Low Risk)'',
       h_bmi = 24, h_blood_pressure_systolic = 118, h_total_cholesterol = 190,
       h_smoking_status = ''Never'', h_alcohol_consumption = ''None'',
       h_exercise_frequency = ''Sedentary'', h_chronic_conditions = ''None'',
       h_family_history = ''None'', h_dangerous_hobbies = ''None'',
       h_risk_score_assigned = 0.2, h_annual_premium_assigned = 300,
       h_claim_filed = False, h_policy_accepted = True, h_policy_active = True,
       h_policy_issue_date = Some 0 \<rparr>"

text \<open>The same past customer with the policy declined, and with an issue date that does
  not parse.\<close>

definition declined_customer :: hist_row where
  "declined_customer = past_customer\<lparr> h_policy_accepted := False \<rparr>"

definition undated_customer :: hist_row where
  "undated_customer = past_customer\<lparr> h_policy_issue_date := None \<rparr>"

section \<open>Properties\<close>

subsection \<open>Rounding and splitting\<close>

lemma length_py_split: "length (py_split sep s) = Suc (py_count sep s)"
  by (induction s) (auto simp: py_count_def split: list.splits)

lemma round_half_even_of_int: "round_half_even (of_int k) = k"
  by (simp add: round_half_even_def)

lemma py_round_exact: "py_round (of_int k / 10 ^ n) n = of_int k / 10 ^ n"
  by (simp add: py_round_def round_half_even_of_int)

lemma score_age_fields:
  "weight (score_age h c) = 0.20"
  "weighted_score (score_age h c) = risk_contribution (score_age h c) * weight (score_age h c)"
  "0 < risk_contribution (score_age h c)"
    apply (simp_all add: score_age_def Let_def)
  apply (simp_all add: py_round_def round_half_even_def)
  done

lemma score_gender_fields:
  "weight (score_gender h c) = 0.05"
  "weighted_score (score_gender h c) = risk_contribution (score_gender h c) * weight (score_gender h c)"
  "risk_contribution (score_gender h c) = (if gender c = ''Male'' then 0.55 else 0.45)"
    apply (simp_all add: score_gender_def Let_def)
  apply (simp_all add: py_round_def round_half_even_def)
  done

lemma score_bmi_fields:
  "weight (score_bmi h c) = 0.15"
  "weighted_score (score_bmi h c) = risk_contribution (score_bmi h c) * weight (score_bmi h c)"
  "0 < risk_contribution (score_bmi h c)"
    apply (simp_all add: score_bmi_def Let_def)
  apply (simp_all add: py_round_def round_half_even_def)
  done

lemma score_blood_pressure_fields:
  "weight (score_blood_pressure h c) = 0.10"
  "weighted_score (score_blood_pressure h c)
     = risk_contribution (score_blood_pressure h c) * weight (score_blood_pressure h c)"
  "0 < risk_contribution (score_blood_pressure h c)"
    apply (simp_all add: score_blood_pressure_def Let_def)
  apply (simp_all add: py_round_def round_half_even_def)
  done

lemma score_cholesterol_fields:
  "weight (score_cholesterol h c) = 0.08"
  "weighted_score (score_cholesterol h c)
     = risk_contribution (score_cholesterol h c) * weight (score_cholesterol h c)"
  "0 < risk_contribution (score_cholesterol h c)"
    apply (simp_all add: score_cholesterol_def Let_def)
  apply (simp_all add: py_round_def round_half_even_def)
  done

lemma score_hobbies_fields:
  "weight (score_hobbies h c) = 0.03"
  "weighted_score (score_hobbies h c)
     = risk_contribution (score_hobbies h c) * weight (score_hobbies h c)"
  "0 < risk_contribution (score_hobbies h c)"
    apply (simp_all add: score_hobbies_def Let_def)
  apply (simp_all add: py_round_def round_half_even_def)
  done

lemma count_formula_round:
  "py_round (min (of_int m / 100) (0.4 + of_nat n * 0.2) * (of_int w / 100)) 4
     = min (of_int m / 100) (0.4 + of_nat n * 0.2) * (of_int w / 100)"
proof -
  have "min (of_int m / 100) (0.4 + of_nat n * 0.2) * (of_int w / 100 :: real)
          = of_int (min m (40 + 20 * int n) * w) / 10 ^ 4"
    by (simp add: min_def field_simps)
  then show ?thesis by (simp only: py_round_exact)
qed

lemma score_chronic_conditions_fields:
  "weight (score_chronic_conditions h c) = 0.10"
  "weighted_score (score_chronic_conditions h c)
     = risk_contribution (score_chronic_conditions h c) * weight (score_chronic_conditions h c)"
  "risk_contribution (score_chronic_conditions h c)
     = (if chronic_conditions c = ''None'' then 0.1
        else min 0.95 (0.4 + of_nat (length (py_split (CHR '';'') (chronic_conditions c))) * 0.2))"
proof -
  show "weight (score_chronic_conditions h c) = 0.10"
    by (simp add: score_chronic_conditions_def Let_def)
  show "risk_contribution (score_chronic_conditions h c)
     = (if chronic_conditions c = ''None'' then 0.1
        else min 0.95 (0.4 + of_nat (length (py_split (CHR '';'') (chronic_conditions c))) * 0.2))"
    by (simp add: score_chronic_conditions_def Let_def)
  have a: "py_round (0.1 * 0.10) 4 = 0.1 * 0.10"
    by (simp add: py_round_def round_half_even_def)
  show "weighted_score (score_chronic_conditions h c)
     = risk_contribution (score_chronic_conditions h c) * weight (score_chronic_conditions h c)"
    using count_formula_round[of 95 _ 10] a
    by (simp add: score_chronic_conditions_def Let_def)
qed

lemma score_family_history_fields:
  "weight (score_family_history h c) = 0.05"
  "weighted_score (score_family_history h c)
     = risk_contribution (score_family_history h c) * weight (score_family_history h c)"
  "0 < risk_contribution (score_family_history h c)"
proof -
  show "weight (score_family_history h c) = 0.05"
    by (simp add: score_family_history_def Let_def)
  show "0 < risk_contribution (score_family_history h c)"
    by (simp add: score_family_history_def Let_def min_def)
  have a: "py_round (0.2 * 0.05) 4 = 0.2 * 0.05"
    by (simp add: py_round_def round_half_even_def)
  show "weighted_score (score_family_history h c)
     = risk_contribution (score_family_history h c) * weight (score_family_history h c)"
    using count_formula_round[of 80 _ 5] a
    by (simp add: score_family_history_def Let_def)
qed

lemma occupation_risk_values:
  "map_of occupation_risk_map k = Some v \<Longrightarrow> v \<in> {0.2, 0.4, 0.7, 0.9}"
  by (auto simp: occupation_risk_map_def split: if_splits)

lemma score_occupation_Inr:
  assumes "score_occupation h c = Inr s"
  shows "weight s = 0.10" "weighted_score s = risk_contribution s * weight s"
    "map_of occupation_risk_map (occupation_class c) = Some (risk_contribution s)"
    "0 < risk_contribution s"
proof -
  from assms obtain v where v: "map_of occupation_risk_map (occupation_class c) = Some v"
    and s: "risk_contribution s = v" "weight s = 0.10" "weighted_score s = py_round (v * 0.10) 4"
    by (auto simp: score_occupation_def Let_def split: option.splits)
  from v have "v \<in> {0.2, 0.4, 0.7, 0.9}"
    by (rule occupation_risk_values)
  then have r: "py_round (v * 0.10) 4 = v * 0.10 \<and> 0 < v"
    by (elim insertE emptyE; hypsubst; simp add: py_round_def round_half_even_def)
  show "weight s = 0.10" by (rule s(2))
  show "weighted_score s = risk_contribution s * weight s" unfolding s using r by (rule conjunct1)
  show "map_of occupation_risk_map (occupation_class c) = Some (risk_contribution s)" unfolding s(1) by (rule v)
  show "0 < risk_contribution s" unfolding s(1) using r by (rule conjunct2)
qed

lemma smoking_risk_values:
  "map_of smoking_risk_map k = Some v \<Longrightarrow> v \<in> {0.1, 0.3, 0.5, 0.95}"
  by (auto simp: smoking_risk_map_def split: if_splits)

lemma score_smoking_Inr:
  assumes "score_smoking h c = Inr s"
  shows "weight s = 0.15" "weighted_score s = risk_contribution s * weight s"
    "map_of smoking_risk_map (smoking_status c) = Some (risk_contribution s)"
    "0 < risk_contribution s"
proof -
  from assms obtain v where v: "map_of smoking_risk_map (smoking_status c) = Some v"
    and s: "risk_contribution s = v" "weight s = 0.15" "weighted_score s = py_round (v * 0.15) 4"
    by (auto simp: score_smoking_def Let_def split: option.splits)
  from v have "v \<in> {0.1, 0.3, 0.5, 0.95}"
    by (rule smoking_risk_values)
  then have r: "py_round (v * 0.15) 4 = v * 0.15 \<and> 0 < v"
    by (elim insertE emptyE; hypsubst; simp add: py_round_def round_half_even_def)
  show "weight s = 0.15" by (rule s(2))
  show "weighted_score s = risk_contribution s * weight s" unfolding s using r by (rule conjunct1)
  show "map_of smoking_risk_map (smoking_status c) = Some (risk_contribution s)" unfolding s(1) by (rule v)
  show "0 < risk_contribution s" unfolding s(1) using r by (rule conjunct2)
qed

lemma alcohol_risk_values:
  "map_of alcohol_risk_map k = Some v \<Longrightarrow> v \<in> {0.2, 0.25, 0.4, 0.8}"
  by (auto simp: alcohol_risk_map_def split: if_splits)

lemma score_alcohol_Inr:
  assumes "score_alcohol h c = Inr s"
  shows "weight s = 0.05" "weighted_score s = risk_contribution s * weight s"
    "map_of alcohol_risk_map (alcohol_consumption c) = Some (risk_contribution s)"
    "0 < risk_contribution s"
proof -
  from assms obtain v where v: "map_of alcohol_risk_map (alcohol_consumption c) = Some v"
    and s: "risk_contribution s = v" "weight s = 0.05" "weighted_score s = py_round (v * 0.05) 4"
    by (auto simp: score_alcohol_def Let_def split: option.splits)
  from v have "v \<in> {0.2, 0.25, 0.4, 0.8}"
    by (rule alcohol_risk_values)
  then have r: "py_round (v * 0.05) 4 = v * 0.05 \<and> 0 < v"
    by (elim insertE emptyE; hypsubst; simp add: py_round_def round_half_even_def)
  show "weight s = 0.05" by (rule s(2))
  show "weighted_score s = risk_contribution s * weight s" unfolding s using r by (rule conjunct1)
  show "map_of alcohol_risk_map (alcohol_consumption c) = Some (risk_contribution s)" unfolding s(1) by (rule v)
  show "0 < risk_contribution s" unfolding s(1) using r by (rule conjunct2)
qed

lemma exercise_risk_values:
  "map_of exercise_risk_map k = Some v \<Longrightarrow> v \<in> {0.7, 0.5, 0.3, 0.15}"
  by (auto simp: exercise_risk_map_def split: if_splits)

lemma score_exercise_Inr:
  assumes "score_exercise h c = Inr s"
  shows "weight s = 0.04" "weighted_score s = risk_contribution s * weight s"
    "map_of exercise_risk_map (exercise_frequency c) = Some (risk_contribution s)"
    "0 < risk_contribution s"
proof -
  from assms obtain v where v: "map_of exercise_risk_map (exercise_frequency c) = Some v"
    and s: "risk_contribution s = v" "weight s = 0.04" "weighted_score s = py_round (v * 0.04) 4"
    by (auto simp: score_exercise_def Let_def split: option.splits)
  from v have "v \<in> {0.7, 0.5, 0.3, 0.15}"
    by (rule exercise_risk_values)
  then have r: "py_round (v * 0.04) 4 = v * 0.04 \<and> 0 < v"
    by (elim insertE emptyE; hypsubst; simp add: py_round_def round_half_even_def)
  show "weight s = 0.04" by (rule s(2))
  show "weighted_score s = risk_contribution s * weight s" unfolding s using r by (rule conjunct1)
  show "map_of exercise_risk_map (exercise_frequency c) = Some (risk_contribution s)" unfolding s(1) by (rule v)
  show "0 < risk_contribution s" unfolding s(1) using r by (rule conjunct2)
qed

subsection \<open>The outcome of a scoring call\<close>

lemma score_occupation_Inl_iff:
  "score_occupation h c = Inl e \<longleftrightarrow>
     map_of occupation_risk_map (occupation_class c) = None \<and> e = KeyError (occupation_class c)"
  by (auto simp: score_occupation_def Let_def split: option.splits)

lemma score_smoking_Inl_iff:
  "score_smoking h c = Inl e \<longleftrightarrow>
     map_of smoking_risk_map (smoking_status c) = None \<and> e = KeyError (smoking_status c)"
  by (auto simp: score_smoking_def Let_def split: option.splits)

lemma score_alcohol_Inl_iff:
  "score_alcohol h c = Inl e \<longleftrightarrow>
     map_of alcohol_risk_map (alcohol_consumption c) = None \<and> e = KeyError (alcohol_consumption c)"
  by (auto simp: score_alcohol_def Let_def split: option.splits)

lemma score_exercise_Inl_iff:
  "score_exercise h c = Inl e \<longleftrightarrow>
     map_of exercise_risk_map (exercise_frequency c) = None \<and> e = KeyError (exercise_frequency c)"
  by (auto simp: score_exercise_def Let_def split: option.splits)

lemma score_occupation_Inr_D:
  "score_occupation h c = Inr s \<Longrightarrow> map_of occupation_risk_map (occupation_class c) \<noteq> None"
  by (auto simp: score_occupation_def Let_def split: option.splits)

lemma score_smoking_Inr_D:
  "score_smoking h c = Inr s \<Longrightarrow> map_of smoking_risk_map (smoking_status c) \<noteq> None"
  by (auto simp: score_smoking_def Let_def split: option.splits)

lemma score_alcohol_Inr_D:
  "score_alcohol h c = Inr s \<Longrightarrow> map_of alcohol_risk_map (alcohol_consumption c) \<noteq> None"
  by (auto simp: score_alcohol_def Let_def split: option.splits)

lemma score_exercise_Inr_D:
  "score_exercise h c = Inr s \<Longrightarrow> map_of exercise_risk_map (exercise_frequency c) \<noteq> None"
  by (auto simp: score_exercise_def Let_def split: option.splits)

lemma score_customer_cases [case_names occupation smoking alcohol exercise scored]:
  fixes h t raw
  defines "c \<equiv> normalize_customer_inputs raw"
  obtains
    "map_of occupation_risk_map (occupation_class c) = None"
    "score_customer h t raw = Inl (KeyError (occupation_class c))"
  | "map_of occupation_risk_map (occupation_class c) \<noteq> None"
    "map_of smoking_risk_map (smoking_status c) = None"
    "score_customer h t raw = Inl (KeyError (smoking_status c))"
  | "map_of occupation_risk_map (occupation_class c) \<noteq> None"
    "map_of smoking_risk_map (smoking_status c) \<noteq> None"
    "map_of alcohol_risk_map (alcohol_consumption c) = None"
    "score_customer h t raw = Inl (KeyError (alcohol_consumption c))"
  | "map_of occupation_risk_map (occupation_class c) \<noteq> None"
    "map_of smoking_risk_map (smoking_status c) \<noteq> None"
    "map_of alcohol_risk_map (alcohol_consumption c) \<noteq> None"
    "map_of exercise_risk_map (exercise_frequency c) = None"
    "score_customer h t raw = Inl (KeyError (exercise_frequency c))"
  | os ss als es steps total where
    "score_occupation h c = Inr os" "score_smoking h c = Inr ss"
    "score_alcohol h c = Inr als" "score_exercise h c = Inr es"
    "steps = [score_age h c, score_gender h c, os, score_bmi h c, score_blood_pressure h c,
              score_cholesterol h c, ss, als, es, score_chronic_conditions h c,
              score_family_history h c, score_hobbies h c]"
    "total = sum_list (map weighted_score steps)"
    "score_customer h t raw =
       Inr \<lparr> result_customer_id = customer_id c,
             final_risk_score = py_round total 4,
             annual_premium_low = py_round (low (calculate_pricing c total)) 2,
             annual_premium_calculated = py_round (calculated (calculate_pricing c total)) 2,
             annual_premium_recommended = py_round (recommended (calculate_pricing c total)) 2,
             annual_premium_high = py_round (high (calculate_pricing c total)) 2,
             predicted_policy_duration_years =
               py_round (predicted_duration_years (estimate_policy_metrics h t c total)) 1,
             result_attrition_likelihood =
               py_round (attrition_likelihood (estimate_policy_metrics h t c total)) 3,
             scoring_steps = steps,
             confidence_level = calculate_confidence c steps \<rparr>"
proof (cases "score_occupation h c")
  case (Inl e)
  then have k: "map_of occupation_risk_map (occupation_class c) = None"
    "e = KeyError (occupation_class c)"
    by (simp_all add: score_occupation_Inl_iff)
  from Inl have "score_customer h t raw = Inl e"
    by (simp add: score_customer_def Let_def c_def)
  with k show ?thesis using that(1) by simp
next
  case occ: (Inr os)
  note n1 = score_occupation_Inr_D[OF occ]
  show ?thesis
  proof (cases "score_smoking h c")
    case (Inl e)
    then have k: "map_of smoking_risk_map (smoking_status c) = None"
      "e = KeyError (smoking_status c)"
      by (simp_all add: score_smoking_Inl_iff)
    from Inl occ have "score_customer h t raw = Inl e"
      by (simp add: score_customer_def Let_def c_def)
    with k n1 show ?thesis using that(2) by simp
  next
    case smk: (Inr ss)
    note n2 = score_smoking_Inr_D[OF smk]
    show ?thesis
    proof (cases "score_alcohol h c")
      case (Inl e)
      then have k: "map_of alcohol_risk_map (alcohol_consumption c) = None"
        "e = KeyError (alcohol_consumption c)"
        by (simp_all add: score_alcohol_Inl_iff)
      from Inl occ smk have "score_customer h t raw = Inl e"
        by (simp add: score_customer_def Let_def c_def)
      with k n1 n2 show ?thesis using that(3) by simp
    next
      case alc: (Inr als)
      note n3 = score_alcohol_Inr_D[OF alc]
      show ?thesis
      proof (cases "score_exercise h c")
        case (Inl e)
        then have k: "map_of exercise_risk_map (exercise_frequency c) = None"
          "e = KeyError (exercise_frequency c)"
          by (simp_all add: score_exercise_Inl_iff)
        from Inl occ smk alc have "score_customer h t raw = Inl e"
          by (simp add: score_customer_def Let_def c_def)
        with k n1 n2 n3 show ?thesis using that(4) by simp
      next
        case exr: (Inr es)
        show ?thesis
          by (rule that(5)[OF occ smk alc exr refl refl])
            (simp add: score_customer_def Let_def c_def[symmetric] occ smk alc exr add.assoc)
      qed
    qed
  qed
qed

lemma score_customer_Inl_iff:
  "score_customer h t raw = Inl e \<longleftrightarrow>
     (let c = normalize_customer_inputs raw
      in (map_of occupation_risk_map (occupation_class c) = None
            \<and> e = KeyError (occupation_class c))
       \<or> (map_of occupation_risk_map (occupation_class c) \<noteq> None
            \<and> map_of smoking_risk_map (smoking_status c) = None
            \<and> e = KeyError (smoking_status c))
       \<or> (map_of occupation_risk_map (occupation_class c) \<noteq> None
            \<and> map_of smoking_risk_map (smoking_status c) \<noteq> None
            \<and> map_of alcohol_risk_map (alcohol_consumption c) = None
            \<and> e = KeyError (alcohol_consumption c))
       \<or> (map_of occupation_risk_map (occupation_class c) \<noteq> None
            \<and> map_of smoking_risk_map (smoking_status c) \<noteq> None
            \<and> map_of alcohol_risk_map (alcohol_consumption c) \<noteq> None
            \<and> map_of exercise_risk_map (exercise_frequency c) = None
            \<and> e = KeyError (exercise_frequency c)))"
proof (cases h t raw rule: score_customer_cases)
  case occupation
  then show ?thesis by (auto simp: Let_def)
next
  case smoking
  then show ?thesis by (auto simp: Let_def)
next
  case alcohol
  then show ?thesis by (auto simp: Let_def)
next
  case exercise
  then show ?thesis by (auto simp: Let_def)
next
  case (scored os ss als es steps total)
  have "map_of occupation_risk_map (occupation_class (normalize_customer_inputs raw)) \<noteq> None"
    "map_of smoking_risk_map (smoking_status (normalize_customer_inputs raw)) \<noteq> None"
    "map_of alcohol_risk_map (alcohol_consumption (normalize_customer_inputs raw)) \<noteq> None"
    "map_of exercise_risk_map (exercise_frequency (normalize_customer_inputs raw)) \<noteq> None"
    using scored(1-4)
    by (simp_all add: score_occupation_Inr_D score_smoking_Inr_D score_alcohol_Inr_D
        score_exercise_Inr_D)
  with scored(7) show ?thesis by (simp add: Let_def)
qed

lemma score_customer_fails_same:
  "score_customer h t raw = Inl e \<Longrightarrow> score_customer h' t' raw = Inl e"
  by (simp add: score_customer_Inl_iff)


subsection \<open>What the historical data can change\<close>

lemma weighted_score_without_cohort_summary:
  "weighted_score (without_cohort_summary s) = weighted_score s"
  by (simp add: without_cohort_summary_def)

lemma total_steps_history_free:
  "without_cohort_summary (score_age h c) = without_cohort_summary (score_age h' c)"
  "without_cohort_summary (score_gender h c) = without_cohort_summary (score_gender h' c)"
  "without_cohort_summary (score_bmi h c) = without_cohort_summary (score_bmi h' c)"
  "without_cohort_summary (score_blood_pressure h c)
     = without_cohort_summary (score_blood_pressure h' c)"
  "without_cohort_summary (score_cholesterol h c) = without_cohort_summary (score_cholesterol h' c)"
  "without_cohort_summary (score_chronic_conditions h c)
     = without_cohort_summary (score_chronic_conditions h' c)"
  "without_cohort_summary (score_family_history h c)
     = without_cohort_summary (score_family_history h' c)"
  "without_cohort_summary (score_hobbies h c) = without_cohort_summary (score_hobbies h' c)"
  by (simp_all add: without_cohort_summary_def score_age_def score_gender_def score_bmi_def
      score_blood_pressure_def score_cholesterol_def score_chronic_conditions_def
      score_family_history_def score_hobbies_def Let_def)

lemma mapped_steps_history_free:
  "score_occupation h c = Inr s \<Longrightarrow> score_occupation h' c = Inr s'
     \<Longrightarrow> without_cohort_summary s = without_cohort_summary s'"
  "score_smoking h c = Inr s \<Longrightarrow> score_smoking h' c = Inr s'
     \<Longrightarrow> without_cohort_summary s = without_cohort_summary s'"
  "score_alcohol h c = Inr s \<Longrightarrow> score_alcohol h' c = Inr s'
     \<Longrightarrow> without_cohort_summary s = without_cohort_summary s'"
  "score_exercise h c = Inr s \<Longrightarrow> score_exercise h' c = Inr s'
     \<Longrightarrow> without_cohort_summary s = without_cohort_summary s'"
  by (auto simp: without_cohort_summary_def score_occupation_def score_smoking_def
      score_alcohol_def score_exercise_def Let_def split: option.splits)

lemma sum_weighted_without_cohort_summary:
  "sum_list (map weighted_score (map without_cohort_summary steps))
     = sum_list (map weighted_score steps)"
  by (induction steps) (simp_all add: weighted_score_without_cohort_summary)

lemma calculate_confidence_total:
  "sum_list (map weighted_score steps) = sum_list (map weighted_score steps')
     \<Longrightarrow> calculate_confidence c steps = calculate_confidence c steps'"
  by (simp add: calculate_confidence_def)

lemma score_customer_history_free:
  "map_sum id history_free_view (score_customer h t raw)
     = map_sum id history_free_view (score_customer h' t' raw)"
proof (cases h t raw rule: score_customer_cases)
  case occupation
  then show ?thesis using score_customer_fails_same[of h t raw _ h' t'] by simp
next
  case smoking
  then show ?thesis using score_customer_fails_same[of h t raw _ h' t'] by simp
next
  case alcohol
  then show ?thesis using score_customer_fails_same[of h t raw _ h' t'] by simp
next
  case exercise
  then show ?thesis using score_customer_fails_same[of h t raw _ h' t'] by simp
next
  case a: (scored os ss als es steps total)
  show ?thesis
  proof (cases h' t' raw rule: score_customer_cases)
    case occupation
    then show ?thesis using score_customer_fails_same[of h' t' raw _ h t] by simp
  next
    case smoking
    then show ?thesis using score_customer_fails_same[of h' t' raw _ h t] by simp
  next
    case alcohol
    then show ?thesis using score_customer_fails_same[of h' t' raw _ h t] by simp
  next
    case exercise
    then show ?thesis using score_customer_fails_same[of h' t' raw _ h t] by simp
  next
    case b: (scored os' ss' als' es' steps' total')
    have m: "map without_cohort_summary steps = map without_cohort_summary steps'"
      unfolding a(5) b(5)
      using mapped_steps_history_free(1)[OF a(1) b(1)] mapped_steps_history_free(2)[OF a(2) b(2)]
        mapped_steps_history_free(3)[OF a(3) b(3)] mapped_steps_history_free(4)[OF a(4) b(4)]
        total_steps_history_free[of h _ h']
      by simp
    have "sum_list (map weighted_score (map without_cohort_summary steps))
            = sum_list (map weighted_score (map without_cohort_summary steps'))"
      by (simp only: m)
    then have s: "sum_list (map weighted_score steps) = sum_list (map weighted_score steps')"
      by (simp only: sum_weighted_without_cohort_summary)
    then have tt: "total = total'" by (simp only: a(6) b(6))
    from s have cc: "calculate_confidence (normalize_customer_inputs raw) steps
       = calculate_confidence (normalize_customer_inputs raw) steps'"
      by (rule calculate_confidence_total)
    show ?thesis
      unfolding a(7) b(7) by (simp add: history_free_view_def m tt cc)
  qed
qed

subsection \<open>The steps and the total of a scored result\<close>

lemma py_round_is_rounded: "\<exists>k. py_round x n = of_int k / 10 ^ n"
  by (simp add: py_round_def)

lemma total_steps_rounded:
  "\<exists>k. weighted_score (score_age h c) = of_int k / 10 ^ 4"
  "\<exists>k. weighted_score (score_gender h c) = of_int k / 10 ^ 4"
  "\<exists>k. weighted_score (score_bmi h c) = of_int k / 10 ^ 4"
  "\<exists>k. weighted_score (score_blood_pressure h c) = of_int k / 10 ^ 4"
  "\<exists>k. weighted_score (score_cholesterol h c) = of_int k / 10 ^ 4"
  "\<exists>k. weighted_score (score_chronic_conditions h c) = of_int k / 10 ^ 4"
  "\<exists>k. weighted_score (score_family_history h c) = of_int k / 10 ^ 4"
  "\<exists>k. weighted_score (score_hobbies h c) = of_int k / 10 ^ 4"
  using py_round_is_rounded[of _ 4]
  by (simp_all add: score_age_def score_gender_def score_bmi_def score_blood_pressure_def
      score_cholesterol_def score_chronic_conditions_def score_family_history_def
      score_hobbies_def Let_def)

lemma mapped_steps_rounded:
  "score_occupation h c = Inr s \<Longrightarrow> \<exists>k. weighted_score s = of_int k / 10 ^ 4"
  "score_smoking h c = Inr s \<Longrightarrow> \<exists>k. weighted_score s = of_int k / 10 ^ 4"
  "score_alcohol h c = Inr s \<Longrightarrow> \<exists>k. weighted_score s = of_int k / 10 ^ 4"
  "score_exercise h c = Inr s \<Longrightarrow> \<exists>k. weighted_score s = of_int k / 10 ^ 4"
  using py_round_is_rounded[of _ 4]
  by (auto simp: score_occupation_def score_smoking_def score_alcohol_def score_exercise_def
      Let_def split: option.splits)

lemma sum_list_rounded:
  "(\<And>x. x \<in> set xs \<Longrightarrow> \<exists>k. x = of_int k / 10 ^ n) \<Longrightarrow> \<exists>k. sum_list xs = (of_int k / 10 ^ n :: real)"
proof (induction xs)
  case Nil
  show ?case by (rule exI[of _ 0]) simp
next
  case (Cons x xs)
  then obtain a b where "x = of_int a / 10 ^ n" "sum_list xs = of_int b / 10 ^ n"
    by (metis list.set_intros(1) list.set_intros(2))
  then have "sum_list (x # xs) = of_int (a + b) / 10 ^ n"
    by (simp add: add_divide_distrib)
  then show ?case by blast
qed


lemma score_gender_risk_pos: "0 < risk_contribution (score_gender h c)"
  by (simp add: score_gender_fields(3))

lemma score_chronic_conditions_risk_pos: "0 < risk_contribution (score_chronic_conditions h c)"
  by (simp add: score_chronic_conditions_fields(3) min_def)

lemma scored_steps_facts:
  assumes "score_occupation h c = Inr os" "score_smoking h c = Inr ss"
    "score_alcohol h c = Inr als" "score_exercise h c = Inr es"
    "steps = [score_age h c, score_gender h c, os, score_bmi h c, score_blood_pressure h c,
              score_cholesterol h c, ss, als, es, score_chronic_conditions h c,
              score_family_history h c, score_hobbies h c]"
    "s \<in> set steps"
  shows "weighted_score s = risk_contribution s * weight s"
    "0 < risk_contribution s" "0 < weight s" "\<exists>k. weighted_score s = of_int k / 10 ^ 4"
proof -
  note f = score_age_fields[of h c] score_gender_fields(1,2)[of h c] score_gender_risk_pos[of h c]
    score_bmi_fields[of h c] score_blood_pressure_fields[of h c] score_cholesterol_fields[of h c]
    score_chronic_conditions_fields(1,2)[of h c] score_chronic_conditions_risk_pos[of h c]
    score_family_history_fields[of h c] score_hobbies_fields[of h c]
    score_occupation_Inr(1,2,4)[OF assms(1)] score_smoking_Inr(1,2,4)[OF assms(2)]
    score_alcohol_Inr(1,2,4)[OF assms(3)] score_exercise_Inr(1,2,4)[OF assms(4)]
  from assms(6) have m: "s = score_age h c \<or> s = score_gender h c \<or> s = os \<or> s = score_bmi h c
     \<or> s = score_blood_pressure h c \<or> s = score_cholesterol h c \<or> s = ss \<or> s = als \<or> s = es
     \<or> s = score_chronic_conditions h c \<or> s = score_family_history h c \<or> s = score_hobbies h c"
    unfolding assms(5) by auto
  from m f show "weighted_score s = risk_contribution s * weight s"
    by (elim disjE) (simp_all only:)
  from m f show "0 < risk_contribution s"
    by (elim disjE) (simp_all only:)
  from m f show "0 < weight s"
    by (elim disjE) simp_all
  from m total_steps_rounded[of h c] mapped_steps_rounded(1)[OF assms(1)]
    mapped_steps_rounded(2)[OF assms(2)] mapped_steps_rounded(3)[OF assms(3)]
    mapped_steps_rounded(4)[OF assms(4)]
  show "\<exists>k. weighted_score s = of_int k / 10 ^ 4"
    by (elim disjE) (simp_all only:)
qed

lemma sum_list_pos_real:
  "xs \<noteq> [] \<Longrightarrow> (\<And>x. x \<in> set xs \<Longrightarrow> (0::real) < x) \<Longrightarrow> 0 < sum_list xs"
proof (induction xs)
  case Nil
  then show ?case by simp
next
  case (Cons x xs)
  have x: "0 < x" using Cons.prems(2) by simp
  show ?case
  proof (cases "xs = []")
    case True
    with x show ?thesis by simp
  next
    case False
    with Cons have "0 < sum_list xs" by simp
    with x show ?thesis by simp
  qed
qed

lemma scored_total:
  assumes "score_occupation h c = Inr os" "score_smoking h c = Inr ss"
    "score_alcohol h c = Inr als" "score_exercise h c = Inr es"
    "steps = [score_age h c, score_gender h c, os, score_bmi h c, score_blood_pressure h c,
              score_cholesterol h c, ss, als, es, score_chronic_conditions h c,
              score_family_history h c, score_hobbies h c]"
    "tot = sum_list (map weighted_score steps)"
  shows "py_round tot 4 = tot" "0 < tot"
proof -
  have "\<exists>k. x = of_int k / 10 ^ 4" if "x \<in> set (map weighted_score steps)" for x
    using that scored_steps_facts(4)[OF assms(1-5)] by auto
  then obtain k where "tot = of_int k / 10 ^ 4"
    unfolding assms(6) using sum_list_rounded[of "map weighted_score steps" 4] by blast
  then show "py_round tot 4 = tot" by (simp only: py_round_exact)
  have "0 < weighted_score s" if "s \<in> set steps" for s
    using scored_steps_facts(1-3)[OF assms(1-5) that] by simp
  then have "0 < x" if "x \<in> set (map weighted_score steps)" for x
    using that by auto
  moreover have "map weighted_score steps \<noteq> []" unfolding assms(5) by simp
  ultimately show "0 < tot"
    unfolding assms(6) using sum_list_pos_real[of "map weighted_score steps"] by blast
qed

subsection \<open>Rounding is monotone; the price band\<close>








subsection \<open>Evaluation of the sample inputs\<close>


lemma standard_scored: "score_customer None 0 standard_applicant = Inr standard_result"
  by code_simp





subsection \<open>Cohorts and the estimate\<close>

lemma filter_filter_conj: "filter P (filter Q xs) = filter (\<lambda>x. Q x \<and> P x) xs"
  by (induction xs) simp_all

lemma age_window: "(a - w \<le> x \<and> x \<le> a + w) = (\<bar>x - a\<bar> \<le> (w::real))"
  by auto

lemma primary_cohort_eq:
  "primary_cohort df c
     = filter (\<lambda>r. \<bar>h_age r - age c\<bar> \<le> 5 \<and> h_occupation_class r = occupation_class c
                   \<and> h_smoking_status r = smoking_status c) df"
  by (simp add: primary_cohort_def filter_filter_conj age_window conj_assoc)

lemma relaxed_cohort_eq:
  "relaxed_cohort df c
     = filter (\<lambda>r. \<bar>h_age r - age c\<bar> \<le> 10 \<and> h_smoking_status r = smoking_status c) df"
  by (simp add: relaxed_cohort_def filter_filter_conj age_window)

lemma age_only_cohort_eq:
  "age_only_cohort df c = filter (\<lambda>r. \<bar>h_age r - age c\<bar> \<le> 10) df"
  by (simp add: age_only_cohort_def age_window)

lemma select_cohort_relaxed:
  "length (primary_cohort df c) < 50 \<Longrightarrow>
     select_cohort df c = (if length (relaxed_cohort df c) < 30 then age_only_cohort df c
                           else relaxed_cohort df c)"
  by (simp add: select_cohort_def Let_def)

lemma select_cohort_primary:
  "\<not> length (primary_cohort df c) < 50 \<Longrightarrow> select_cohort df c = primary_cohort df c"
  by (simp add: select_cohort_def Let_def)

lemma sample_fields:
  "age standard_customer = 25"
  "occupation_class standard_customer = ''Class I (Low Risk)''"
  "smoking_status standard_customer = ''Never''"
  "h_age past_customer = 33" "h_age declined_customer = 33" "h_age undated_customer = 33"
  "h_occupation_class past_customer = ''Class I (Low Risk)''"
  "h_smoking_status past_customer = ''Never''"
  "h_smoking_status declined_customer = ''Never''"
  "h_smoking_status undated_customer = ''Never''"
  "h_policy_accepted past_customer" "\<not> h_policy_accepted declined_customer"
  "h_policy_accepted undated_customer"
  "h_policy_active past_customer"
  "h_policy_issue_date past_customer = Some 0" "h_policy_issue_date undated_customer = None"
  by (simp_all add: standard_customer_def past_customer_def declined_customer_def
      undated_customer_def)



lemma cohort_metrics_no_accepted:
  "\<forall>r \<in> set cohort. \<not> h_policy_accepted r \<Longrightarrow> cohort_metrics today cohort rs = fallback rs"
  by (simp add: cohort_metrics_def filter_empty_conv)




section \<open>The claims\<close>

text \<open>
  C1 (as amended). The twelve steps of every scored result carry the weights 0.20, 0.05,
  0.10, 0.15, 0.10, 0.08, 0.15, 0.05, 0.04, 0.10, 0.05 and 0.03, in this order, and these
  weights sum to 1.10.
\<close>

theorem factor_weights_sum:
  assumes "score_customer h t raw = Inr r"
  shows "map weight (scoring_steps r)
           = [0.20, 0.05, 0.10, 0.15, 0.10, 0.08, 0.15, 0.05, 0.04, 0.10, 0.05, 0.03]
         \<and> sum_list (map weight (scoring_steps r)) = 1.10"
proof (cases h t raw rule: score_customer_cases)
  case (scored os ss als es steps total)
  from scored(7) assms have "scoring_steps r = steps" by simp
  then have "map weight (scoring_steps r)
           = [0.20, 0.05, 0.10, 0.15, 0.10, 0.08, 0.15, 0.05, 0.04, 0.10, 0.05, 0.03]"
    unfolding scored(5)
    by (simp add: score_age_fields(1) score_gender_fields(1) score_bmi_fields(1)
        score_blood_pressure_fields(1) score_cholesterol_fields(1)
        score_chronic_conditions_fields(1) score_family_history_fields(1)
        score_hobbies_fields(1) score_occupation_Inr(1)[OF scored(1)]
        score_smoking_Inr(1)[OF scored(2)] score_alcohol_Inr(1)[OF scored(3)]
        score_exercise_Inr(1)[OF scored(4)])
  then show ?thesis by simp
qed (use assms in simp_all)

theorem factor_weights_sum_witness:
  "score_customer None 0 standard_applicant = Inr standard_result
   \<and> sum_list (map weight (scoring_steps standard_result)) = 1.10"
  using factor_weights_sum[OF standard_scored] standard_scored by simp

text \<open>The claim as written (the weights sum to 1.0) fails: for the sample applicant the
  weights of the returned steps do not sum to 1.\<close>

theorem factor_weights_sum_not_one:
  "score_customer None 0 standard_applicant = Inr standard_result
   \<and> sum_list (map weight (scoring_steps standard_result)) \<noteq> 1.0"
  using standard_scored by (simp add: standard_result_def)

text \<open>
  C4. For every applicant that is scored, the result has twelve steps, the weighted score
  of each step is its risk times its weight, and the final risk score is the sum of the
  twelve weighted scores; rounding that sum to 4 decimals, as the result does, leaves it
  unchanged.
\<close>

theorem final_risk_score_is_sum:
  assumes "score_customer h t raw = Inr r"
  shows "length (scoring_steps r) = 12
         \<and> (\<forall>s \<in> set (scoring_steps r). weighted_score s = risk_contribution s * weight s)
         \<and> final_risk_score r = py_round (sum_list (map weighted_score (scoring_steps r))) 4
         \<and> final_risk_score r = sum_list (map weighted_score (scoring_steps r))"
proof (cases h t raw rule: score_customer_cases)
  case (scored os ss als es steps total)
  from scored(7) assms have r: "scoring_steps r = steps" "final_risk_score r = py_round total 4"
    by auto
  have "length steps = 12" unfolding scored(5) by simp
  moreover have "\<forall>s \<in> set steps. weighted_score s = risk_contribution s * weight s"
    using scored_steps_facts(1)[OF scored(1-5)] by blast
  moreover note scored_total(1)[OF scored(1-6)] scored(6)
  ultimately show ?thesis unfolding r by simp
qed (use assms in simp_all)

theorem final_risk_score_is_sum_witness:
  "score_customer None 0 standard_applicant = Inr standard_result
   \<and> final_risk_score standard_result
       = sum_list (map weighted_score (scoring_steps standard_result))
   \<and> final_risk_score standard_result = 0.1725"
  using final_risk_score_is_sum[OF standard_scored] standard_scored
  by (simp add: standard_result_def)

text \<open>
  C7. The chronic-conditions factor has risk 0.1 when the field is \<^verbatim>\<open>None\<close>; otherwise,
  with \<open>n\<close> the number of semicolon-separated entries (one more than the number of
  semicolons, so \<open>n \<ge> 1\<close>), the risk is \<open>min 0.95 (0.4 + n * 0.2)\<close>, which is 0.8 for
  exactly two entries. The weight is 0.10 and the weighted score is risk times 0.10.
\<close>

theorem chronic_conditions_risk:
  fixes h c
  defines "step \<equiv> score_chronic_conditions h c"
    and "n \<equiv> Suc (py_count (CHR '';'') (chronic_conditions c))"
  shows "(chronic_conditions c = ''None'' \<longrightarrow> risk_contribution step = 0.1)
         \<and> (chronic_conditions c \<noteq> ''None'' \<longrightarrow>
               length (py_split (CHR '';'') (chronic_conditions c)) = n
               \<and> risk_contribution step = min 0.95 (0.4 + of_nat n * 0.2))
         \<and> (chronic_conditions c \<noteq> ''None'' \<and> n = 2 \<longrightarrow> risk_contribution step = 0.8)
         \<and> weight step = 0.10
         \<and> weighted_score step = risk_contribution step * 0.10"
  unfolding step_def n_def
  by (simp add: score_chronic_conditions_fields length_py_split)

theorem chronic_conditions_risk_witness:
  "risk_contribution (score_chronic_conditions None standard_customer) = 0.1
   \<and> risk_contribution (score_chronic_conditions None two_conditions_customer) = 0.8
   \<and> weighted_score (score_chronic_conditions None two_conditions_customer) = 0.08"
  using chronic_conditions_risk[of standard_customer None]
    chronic_conditions_risk[of two_conditions_customer None]
  by (simp add: standard_customer_def two_conditions_customer_def py_count_def)

text \<open>
  C10. The gender factor cannot fail: its risk is 0.55 when the (normalised) gender is
  exactly \<^verbatim>\<open>Male\<close> and 0.45 for every other string, with weight 0.05. In a scoring call
  the gender never decides whether the call fails or with which error, and the second
  step of every result is this factor, scored on the normalised gender.
\<close>

theorem gender_never_rejected:
  "risk_contribution (score_gender h c) = (if gender c = ''Male'' then 0.55 else 0.45)
   \<and> weight (score_gender h c) = 0.05
   \<and> weighted_score (score_gender h c) = risk_contribution (score_gender h c) * 0.05
   \<and> (score_customer h t (raw\<lparr> gender := g \<rparr>) = Inl e \<longleftrightarrow> score_customer h t raw = Inl e)
   \<and> (score_customer h t raw = Inr r \<longrightarrow>
        scoring_steps r ! 1 = score_gender h (normalize_customer_inputs raw)
        \<and> risk_contribution (scoring_steps r ! 1)
            = (if normalize_string_field (gender raw) = ''Male'' then 0.55 else 0.45))"
proof -
  have a: "risk_contribution (score_gender h c) = (if gender c = ''Male'' then 0.55 else 0.45)"
    "weight (score_gender h c) = 0.05"
    "weighted_score (score_gender h c) = risk_contribution (score_gender h c) * 0.05"
    by (simp_all add: score_gender_fields)
  have b: "score_customer h t (raw\<lparr> gender := g \<rparr>) = Inl e \<longleftrightarrow> score_customer h t raw = Inl e"
    by (simp add: score_customer_Inl_iff normalize_customer_inputs_def Let_def)
  have c: "scoring_steps r ! 1 = score_gender h (normalize_customer_inputs raw)
        \<and> risk_contribution (scoring_steps r ! 1)
            = (if normalize_string_field (gender raw) = ''Male'' then 0.55 else 0.45)"
    if "score_customer h t raw = Inr r"
  proof (cases h t raw rule: score_customer_cases)
    case (scored os ss als es steps total)
    from scored(7) that have "scoring_steps r = steps" by simp
    then have "scoring_steps r ! 1 = score_gender h (normalize_customer_inputs raw)"
      unfolding scored(5) by simp
    moreover have "gender (normalize_customer_inputs raw) = normalize_string_field (gender raw)"
      by (simp add: normalize_customer_inputs_def)
    ultimately show ?thesis by (simp add: score_gender_fields(3))
  qed (use that in simp_all)
  from a b c show ?thesis by blast
qed

theorem gender_never_rejected_witness:
  "score_customer None 0 standard_applicant = Inr standard_result
   \<and> risk_contribution (scoring_steps standard_result ! 1) = 0.45
   \<and> risk_contribution (score_gender None (standard_customer\<lparr> gender := ''Male'' \<rparr>)) = 0.55
   \<and> risk_contribution (score_gender None (standard_customer\<lparr> gender := ''male'' \<rparr>)) = 0.45"
  using gender_never_rejected[where h = None and t = 0 and raw = standard_applicant
        and r = standard_result and c = "standard_customer\<lparr> gender := ''Male'' \<rparr>"
        and g = PyNone and e = "KeyError []"]
    gender_never_rejected[where h = None and t = 0 and raw = standard_applicant
        and r = standard_result and c = "standard_customer\<lparr> gender := ''male'' \<rparr>"
        and g = PyNone and e = "KeyError []"]
    standard_scored
  by (simp add: standard_result_def)







text \<open>
  C5. When the primary cohort (age within 5 years, same occupation class, same smoking
  status) has fewer than 50 rows, the estimate is computed from the relaxed cohort (age
  within 10 years, same smoking status, any occupation class); and when that one has fewer
  than 30 rows, from the rows with age within 10 years alone.
\<close>

theorem cohort_relaxation:
  fixes df c today risk_score
  defines "primary \<equiv> filter (\<lambda>r. \<bar>h_age r - age c\<bar> \<le> 5
                                  \<and> h_occupation_class r = occupation_class c
                                  \<and> h_smoking_status r = smoking_status c) df"
  defines "relaxed \<equiv> filter (\<lambda>r. \<bar>h_age r - age c\<bar> \<le> 10
                                  \<and> h_smoking_status r = smoking_status c) df"
  defines "age_only \<equiv> filter (\<lambda>r. \<bar>h_age r - age c\<bar> \<le> 10) df"
  assumes "df \<noteq> []" and "length primary < 50"
  shows "estimate_policy_metrics (Some df) today c risk_score
           = cohort_metrics today (if length relaxed < 30 then age_only else relaxed) risk_score"
  using assms(4,5)
  unfolding primary_def relaxed_def age_only_def
    primary_cohort_eq[symmetric] relaxed_cohort_eq[symmetric] age_only_cohort_eq[symmetric]
  by (simp add: estimate_policy_metrics_def select_cohort_relaxed)


theorem cohort_relaxation_witness:
  "primary_cohort [past_customer] standard_customer = []
   \<and> relaxed_cohort [past_customer] standard_customer = [past_customer]
   \<and> estimate_policy_metrics (Some [past_customer]) 1461 standard_customer 0.1725
       = cohort_metrics 1461 [past_customer] 0.1725
   \<and> cohort_metrics 1461 [past_customer] 0.1725
       = \<lparr> predicted_duration_years = 4, attrition_likelihood = 0 \<rparr>"
  using cohort_relaxation[of "[past_customer]" standard_customer 1461 "0.1725"]
  by (simp add: primary_cohort_def relaxed_cohort_def sample_fields
      cohort_metrics_def mean_def bool_num_def)



end
